theory Spec2Isabelle
  imports Main "HOL-Library.Sublist"
begin

section \<open>Data model\<close>

text \<open>
  A note is the object literal built in \<^verbatim>\<open>createNewNote\<close> and \<^verbatim>\<open>saveCurrentNote\<close>:
  four string fields. Strings are lists of 8-bit characters; the field \<^verbatim>\<open>id\<close> is
  called \<open>note_id\<close> because \<open>id\<close> is HOL's identity function.
\<close>

record Note =
  note_id :: string
  title :: string
  content :: string
  updatedAt :: string

text \<open>
  The result of an \<^verbatim>\<open>async\<close> function: the promise it returns is either resolved
  with a value or rejected with an error. An \<^verbatim>\<open>await\<close> on a rejected promise throws.
\<close>

datatype 'a promise = Resolved 'a | Rejected string

section \<open>db.js: the localStorage fallback\<close>

text \<open>
  The model covers the branch of \<^verbatim>\<open>saveNote\<close>, \<^verbatim>\<open>getNotes\<close> and \<^verbatim>\<open>deleteNote\<close>
  taken when \<^verbatim>\<open>window.indexedDB\<close> is falsy. The state of the store is the item kept
  under the key \<^verbatim>\<open>simpleNotes\<close>: absent (\<open>None\<close>), or the serialized array that an
  earlier \<^verbatim>\<open>setItem\<close> of this module wrote (\<open>Some\<close> of the array).
  \<^verbatim>\<open>JSON.parse(JSON.stringify(notes))\<close> gives back an array of notes with the same
  four string fields, so the serialized array is modelled by the list itself.
\<close>

type_synonym local_storage = "Note list option"

text \<open>\<^verbatim>\<open>JSON.parse(localStorage.getItem('simpleNotes') || '[]')\<close>\<close>

definition parse_simpleNotes :: "local_storage \<Rightarrow> Note list" where
  "parse_simpleNotes ls = (case ls of None \<Rightarrow> [] | Some ns \<Rightarrow> ns)"

text \<open>\<^verbatim>\<open>Array.prototype.findIndex\<close>: the index of the first element that satisfies
  the predicate, \<open>-1\<close> when there is none.\<close>

fun findIndex :: "('a \<Rightarrow> bool) \<Rightarrow> 'a list \<Rightarrow> int" where
  "findIndex P [] = - 1"
| "findIndex P (x # xs) =
     (if P x then 0
      else (let i = findIndex P xs in if i < 0 then - 1 else i + 1))"

text \<open>
  \<^verbatim>\<open>localStorage.setItem\<close> throws a QuotaExceededError when the value does not fit
  the room the browser leaves to the page. Which values fit is the browser's matter and
  not in the source, so it is a parameter: a \<open>quota\<close> says of every array whether its
  serialized form is taken.
\<close>

type_synonym quota = "Note list \<Rightarrow> bool"

text \<open>
  \<^verbatim>\<open>saveNote\<close>, lines 50 to 59: replace the element at the index found, or push;
  write the array back; return \<^verbatim>\<open>Promise.resolve()\<close>. The call of \<^verbatim>\<open>setItem\<close> on
  line 58 is not guarded: when it throws, the \<^verbatim>\<open>async\<close> function ends there, its
  promise is rejected and the item keeps its old value. The result is the promise and
  the new state of the store.
\<close>

definition saveNote :: "quota \<Rightarrow> Note \<Rightarrow> local_storage \<Rightarrow> unit promise \<times> local_storage" where
  "saveNote fits n ls =
     (let ns = parse_simpleNotes ls;
          existingIndex = findIndex (\<lambda>m. note_id m = note_id n) ns;
          ns' = (if existingIndex \<ge> 0 then ns[nat existingIndex := n] else ns @ [n])
      in if fits ns' then (Resolved (), Some ns')
         else (Rejected ''QuotaExceededError'', ls))"

text \<open>\<^verbatim>\<open>getNotes\<close>, line 81: the parsed array, in a resolved promise.\<close>

definition getNotes :: "local_storage \<Rightarrow> Note list promise" where
  "getNotes ls = Resolved (parse_simpleNotes ls)"

text \<open>\<^verbatim>\<open>deleteNote\<close>, lines 103 to 106: keep the notes with another id, write the
  array back, return \<^verbatim>\<open>Promise.resolve()\<close>. The array written holds no note that
  the array read did not hold, so this write is not one that grows the item.\<close>

definition deleteNote :: "string \<Rightarrow> local_storage \<Rightarrow> unit promise \<times> local_storage" where
  "deleteNote i ls =
     (let ns = parse_simpleNotes ls;
          filtered = filter (\<lambda>m. note_id m \<noteq> i) ns
      in (Resolved (), Some filtered))"

section \<open>Built-in string operations used by app.js\<close>

text \<open>
  A string of the model is a list of 8-bit characters: the code units U+0000 to
  U+00FF. On such a string \<^verbatim>\<open>String.prototype.toLowerCase\<close> maps every character on
  its own: the capitals A to Z (U+0041 to U+005A), and U+00C0 to U+00D6 and U+00D8 to
  U+00DE of the Latin-1 block, go to the character 32 places up; every other character
  stays. (What \<^verbatim>\<open>toLowerCase\<close> does with characters beyond U+00FF is modelled
  separately below.)
\<close>

definition lower_char :: "char \<Rightarrow> char" where
  "lower_char c =
     (let n = (of_char c :: nat)
      in if (65 \<le> n \<and> n \<le> 90) \<or> (192 \<le> n \<and> n \<le> 214) \<or> (216 \<le> n \<and> n \<le> 222)
         then char_of (n + 32) else c)"

definition toLowerCase :: "string \<Rightarrow> string" where
  "toLowerCase s = map lower_char s"

text \<open>
  \<^verbatim>\<open>String.prototype.includes\<close>: whether the search string occurs in the receiver,
  tried at every start position from the left.
\<close>

fun includes_str :: "'a list \<Rightarrow> 'a list \<Rightarrow> bool" where
  "includes_str [] f = (f = [])"
| "includes_str (c # cs) f = (prefix f (c # cs) \<or> includes_str cs f)"

text \<open>
  \<^verbatim>\<open>Number.prototype.toString\<close> on an integer: its decimal digits, with a minus
  sign when it is negative. \<^verbatim>\<open>Date.now()\<close> is an integer number of milliseconds
  (of magnitude below \<open>10\<^sup>2\<^sup>1\<close>, so never printed with an exponent).
\<close>

definition digit_char :: "nat \<Rightarrow> char" where
  "digit_char d = char_of (48 + d)"

fun digits :: "nat \<Rightarrow> string" where
  "digits n = (if n < 10 then [digit_char n] else digits (n div 10) @ [digit_char (n mod 10)])"

declare digits.simps [simp del]

definition toString :: "int \<Rightarrow> string" where
  "toString i = (if i < 0 then CHR ''-'' # digits (nat (- i)) else digits (nat i))"

section \<open>Regular expressions of renderPreview\<close>

text \<open>
  The five patterns of \<^verbatim>\<open>renderPreview\<close> are built from literal characters, the
  assertions \<^verbatim>\<open>^\<close> and \<^verbatim>\<open>$\<close> under the \<^verbatim>\<open>m\<close> flag, and two capture groups: the
  lazy \<^verbatim>\<open>(.*?)\<close> and the greedy \<^verbatim>\<open>(.*$)\<close>. A pattern is the list of its items; the
  greedy group is written as its dots followed by the assertion \<^verbatim>\<open>$\<close>, which consumes
  nothing, so the capture is the same.
\<close>

datatype re_item = Chr char | LineStart | LineEnd | GroupLazy | GroupGreedy

text \<open>Line terminators: \<^verbatim>\<open>\n\<close> and \<^verbatim>\<open>\r\<close> (U+2028 and U+2029 are not 8-bit
  characters). The dot matches every character but these.\<close>

definition isLineTerminator :: "char \<Rightarrow> bool" where
  "isLineTerminator c = (c = CHR 0x0A \<or> c = CHR 0x0D)"

text \<open>
  The backtracking matcher, at one start position. \<open>prev\<close> is the character before the
  position (\<open>None\<close> at the start of the input), which \<^verbatim>\<open>^\<close> looks at. A match gives
  the captures in the order of their groups, the character before the end of the match,
  and the rest of the input. A lazy group tries the shortest capture first, a greedy
  group the longest.
\<close>

fun rmatch :: "re_item list \<Rightarrow> char option \<Rightarrow> string
    \<Rightarrow> (string list \<times> char option \<times> string) option" where
  "rmatch [] prev s = Some ([], prev, s)"
| "rmatch (Chr c # its) prev s =
     (case s of [] \<Rightarrow> None
      | x # xs \<Rightarrow> if x = c then rmatch its (Some x) xs else None)"
| "rmatch (LineStart # its) prev s =
     (case prev of None \<Rightarrow> rmatch its prev s
      | Some p \<Rightarrow> if isLineTerminator p then rmatch its prev s else None)"
| "rmatch (LineEnd # its) prev s =
     (case s of [] \<Rightarrow> rmatch its prev s
      | x # xs \<Rightarrow> if isLineTerminator x then rmatch its prev s else None)"
| "rmatch (GroupLazy # its) prev s =
     (case rmatch its prev s of
        Some (caps, r) \<Rightarrow> Some ([] # caps, r)
      | None \<Rightarrow>
         (case s of [] \<Rightarrow> None
          | x # xs \<Rightarrow>
             if isLineTerminator x then None
             else (case rmatch (GroupLazy # its) (Some x) xs of
                     None \<Rightarrow> None
                   | Some (caps, r) \<Rightarrow>
                       (case caps of [] \<Rightarrow> None
                        | cap # caps' \<Rightarrow> Some ((x # cap) # caps', r)))))"
| "rmatch (GroupGreedy # its) prev s =
     (case (case s of [] \<Rightarrow> None
            | x # xs \<Rightarrow>
               if isLineTerminator x then None
               else (case rmatch (GroupGreedy # its) (Some x) xs of
                       None \<Rightarrow> None
                     | Some (caps, r) \<Rightarrow>
                         (case caps of [] \<Rightarrow> None
                          | cap # caps' \<Rightarrow> Some ((x # cap) # caps', r)))) of
        Some res \<Rightarrow> Some res
      | None \<Rightarrow>
         (case rmatch its prev s of
            Some (caps, r) \<Rightarrow> Some ([] # caps, r)
          | None \<Rightarrow> None))"

text \<open>A replacement string: literal text and the group references \<^verbatim>\<open>$1\<close>, \<^verbatim>\<open>$2\<close>.
  A reference to a group the pattern does not have stays as it is written.\<close>

datatype tmpl_item = Txt string | Grp nat

fun expand :: "tmpl_item list \<Rightarrow> string list \<Rightarrow> string" where
  "expand [] caps = []"
| "expand (Txt t # ts) caps = t @ expand ts caps"
| "expand (Grp n # ts) caps =
     (if 1 \<le> n \<and> n \<le> length caps then caps ! (n - 1) else CHR ''$'' # digits n)
     @ expand ts caps"

text \<open>
  \<^verbatim>\<open>String.prototype.replace\<close> with a pattern under the \<^verbatim>\<open>g\<close> flag: the input is
  scanned from the left; at the first position where the pattern matches, the match is
  replaced and the scan goes on after it; a character at which no match starts is
  copied. After an empty match the scan copies one character and goes on.
\<close>

function replace_g :: "re_item list \<Rightarrow> tmpl_item list \<Rightarrow> char option \<Rightarrow> string \<Rightarrow> string" where
  "replace_g re t prev s =
     (case rmatch re prev s of
        Some (caps, prev', rest) \<Rightarrow>
          if length rest < length s then expand t caps @ replace_g re t prev' rest
          else expand t caps @
            (case s of [] \<Rightarrow> [] | x # xs \<Rightarrow> x # replace_g re t (Some x) xs)
      | None \<Rightarrow>
          (case s of [] \<Rightarrow> [] | x # xs \<Rightarrow> x # replace_g re t (Some x) xs))"
  by pat_completeness auto
termination
  by (relation "measure (\<lambda>(re, t, prev, s). length s)") auto

declare replace_g.simps [simp del]

text \<open>The patterns and replacement strings of lines 166 to 170.\<close>

definition re_h1 :: "re_item list" where
  "re_h1 = [LineStart, Chr CHR ''#'', Chr CHR '' '', GroupGreedy, LineEnd]"

definition re_h2 :: "re_item list" where
  "re_h2 = [LineStart, Chr CHR ''#'', Chr CHR ''#'', Chr CHR '' '', GroupGreedy, LineEnd]"

definition re_bold :: "re_item list" where
  "re_bold = [Chr CHR ''*'', Chr CHR ''*'', GroupLazy, Chr CHR ''*'', Chr CHR ''*'']"

definition re_italic :: "re_item list" where
  "re_italic = [Chr CHR ''*'', GroupLazy, Chr CHR ''*'']"

definition re_link :: "re_item list" where
  "re_link = [Chr CHR ''['', GroupLazy, Chr CHR '']'', Chr CHR ''('', GroupLazy, Chr CHR '')'']"

definition markdown :: "string \<Rightarrow> string" where
  \<open>markdown src =
     replace_g re_link [Txt ''<a href="'', Grp 2, Txt ''">'', Grp 1, Txt ''</a>''] None
      (replace_g re_italic [Txt ''<em>'', Grp 1, Txt ''</em>''] None
        (replace_g re_bold [Txt ''<strong>'', Grp 1, Txt ''</strong>''] None
          (replace_g re_h2 [Txt ''<h2>'', Grp 1, Txt ''</h2>''] None
            (replace_g re_h1 [Txt ''<h1>'', Grp 1, Txt ''</h1>''] None src))))\<close>

section \<open>app.js: state and rendering\<close>

text \<open>
  An entry of the rendered list: its text, its class, and the note that the click
  listener registered on it has captured (\<^verbatim>\<open>() => openNote(note.id)\<close>).
\<close>

record li =
  textContent :: string
  className :: string
  li_note :: Note

text \<open>
  The module's variables \<^verbatim>\<open>currentNoteId\<close> (\<open>None\<close> for \<^verbatim>\<open>null\<close>) and \<^verbatim>\<open>notes\<close>,
  the parts of the page that the code reads and writes, and the state of the store.
\<close>

record app_state =
  currentNoteId :: "string option"
  "notes" :: "Note list"
  noteTitle_value :: string
  editor_value :: string
  preview_innerHTML :: string
  noteList_children :: "li list"
  localStorage :: local_storage

text \<open>What a handler reads of the clock: \<^verbatim>\<open>Date.now()\<close> and
  \<^verbatim>\<open>new Date().toISOString()\<close>.\<close>

record clock =
  date_now :: int
  date_iso :: string

text \<open>What the click handler of the list reads of its event.\<close>

record click_event =
  shiftKey :: bool
  target_tagName :: string
  target_textContent :: string

text \<open>\<^verbatim>\<open>renderPreview\<close>, lines 162 to 172.\<close>

definition renderPreview :: "app_state \<Rightarrow> app_state" where
  "renderPreview st = st\<lparr>preview_innerHTML := markdown (editor_value st)\<rparr>"

text \<open>
  \<^verbatim>\<open>renderNoteList\<close>, lines 70 to 86. The empty string is falsy, so the empty filter
  selects the whole array; \<^verbatim>\<open>note.title || 'Untitled'\<close> shows an empty title as
  Untitled. \<^verbatim>\<open>Array.prototype.filter\<close> builds a new array.
\<close>

definition make_li :: "string option \<Rightarrow> Note \<Rightarrow> li" where
  "make_li cur n =
     \<lparr>textContent = (if title n \<noteq> [] then title n else ''Untitled''),
      className = (if cur = Some (note_id n) then ''active'' else []),
      li_note = n\<rparr>"

definition renderNoteList :: "string \<Rightarrow> app_state \<Rightarrow> app_state" where
  "renderNoteList flt st =
     (let filtered =
        (if flt \<noteq> []
         then filter (\<lambda>n. includes_str (toLowerCase (title n)) flt
                        \<or> includes_str (toLowerCase (content n)) flt) (notes st)
         else notes st)
      in st\<lparr>noteList_children := map (make_li (currentNoteId st)) filtered\<rparr>)"

text \<open>\<^verbatim>\<open>openNote\<close>, lines 89 to 98. \<^verbatim>\<open>renderNoteList()\<close> is called with the default
  filter, the empty string.\<close>

definition openNote :: "string \<Rightarrow> app_state \<Rightarrow> app_state" where
  "openNote i st =
     (case find (\<lambda>n. note_id n = i) (notes st) of
        None \<Rightarrow> st
      | Some n \<Rightarrow>
          renderNoteList []
            (renderPreview
              (st\<lparr>currentNoteId := Some i,
                  noteTitle_value := title n,
                  editor_value := content n\<rparr>)))"

text \<open>The search field's input handler, lines 136 to 138.\<close>

definition searchInput_input :: "string \<Rightarrow> app_state \<Rightarrow> app_state" where
  "searchInput_input v st = renderNoteList (toLowerCase v) st"

section \<open>app.js: creating and deleting notes\<close>

text \<open>The object literal of lines 57 to 62.\<close>

definition newNote :: "clock \<Rightarrow> Note" where
  "newNote clk =
     \<lparr>note_id = toString (date_now clk),
      title = ''Untitled'',
      content = [],
      updatedAt = date_iso clk\<rparr>"

text \<open>The controller is modelled over a store that has room for every write.\<close>

definition room_for_all :: quota where
  "room_for_all ns = True"

text \<open>
  \<^verbatim>\<open>createNewNote\<close>, lines 56 to 67. When the awaited \<^verbatim>\<open>saveNote\<close> rejects, the
  function stops there and its own promise is rejected. \<^verbatim>\<open>unshift\<close> puts the note at
  the front of the array.
\<close>

definition createNewNote :: "clock \<Rightarrow> app_state \<Rightarrow> unit promise \<times> app_state" where
  "createNewNote clk st =
     (case saveNote room_for_all (newNote clk) (localStorage st) of
        (Rejected err, ls) \<Rightarrow> (Rejected err, st\<lparr>localStorage := ls\<rparr>)
      | (Resolved u, ls) \<Rightarrow>
          (Resolved (),
           openNote (note_id (newNote clk))
             (st\<lparr>notes := newNote clk # notes st, localStorage := ls\<rparr>)))"

text \<open>The new-note button's click handler, lines 212 to 214.\<close>

definition newNoteBtn_click :: "clock \<Rightarrow> app_state \<Rightarrow> unit promise \<times> app_state" where
  "newNoteBtn_click clk st = createNewNote clk st"

text \<open>
  A sequence of invocations of \<^verbatim>\<open>createNewNote\<close>, each with its own reading of the
  clock, each awaited before the next starts; a rejection is remembered.
\<close>

fun createNewNote_seq :: "clock list \<Rightarrow> app_state \<Rightarrow> unit promise \<times> app_state" where
  "createNewNote_seq [] st = (Resolved (), st)"
| "createNewNote_seq (clk # clks) st =
     (case createNewNote clk st of
        (Rejected err, st') \<Rightarrow> (Rejected err, st')
      | (Resolved u, st') \<Rightarrow> createNewNote_seq clks st')"

text \<open>
  The click handler of the list, lines 117 to 133. \<^verbatim>\<open>notes.find(...)?.id\<close> is
  \<^verbatim>\<open>undefined\<close> when no note has the clicked text as its title; \<^verbatim>\<open>if (noteId)\<close> also
  skips the empty string.
\<close>

definition noteList_click :: "clock \<Rightarrow> click_event \<Rightarrow> app_state \<Rightarrow> unit promise \<times> app_state" where
  "noteList_click clk e st =
     (if shiftKey e \<and> target_tagName e = ''LI'' then
        (case map_option note_id (find (\<lambda>n. title n = target_textContent e) (notes st)) of
           None \<Rightarrow> (Resolved (), st)
         | Some noteId \<Rightarrow>
             if noteId = [] then (Resolved (), st)
             else
               (case deleteNote noteId (localStorage st) of
                  (Rejected err, ls) \<Rightarrow> (Rejected err, st\<lparr>localStorage := ls\<rparr>)
                | (Resolved u, ls) \<Rightarrow>
                    (let st1 = st\<lparr>notes := filter (\<lambda>n. note_id n \<noteq> noteId) (notes st),
                                   localStorage := ls\<rparr>
                     in if currentNoteId st1 = Some noteId then
                          (case notes st1 of
                             n0 # rest \<Rightarrow>
                               (Resolved (), renderNoteList [] (openNote (note_id n0) st1))
                           | [] \<Rightarrow>
                               (case createNewNote clk st1 of
                                  (Rejected err, st2) \<Rightarrow> (Rejected err, st2)
                                | (Resolved u, st2) \<Rightarrow> (Resolved (), renderNoteList [] st2)))
                        else (Resolved (), renderNoteList [] st1))))
      else (Resolved (), st))"

text \<open>
  A click on the entry at position \<open>k\<close> of the rendered list. The entry's own
  listener runs first (it opens the note the entry was made from), then the event
  bubbles to the list's handler, whose target is that entry.
\<close>

definition li_click :: "li \<Rightarrow> app_state \<Rightarrow> app_state" where
  "li_click item st = openNote (note_id (li_note item)) st"

definition click_entry :: "clock \<Rightarrow> bool \<Rightarrow> nat \<Rightarrow> app_state \<Rightarrow> unit promise \<times> app_state" where
  "click_entry clk shift k st =
     (if k < length (noteList_children st) then
        (let item = noteList_children st ! k
         in noteList_click clk
              \<lparr>shiftKey = shift, target_tagName = ''LI'',
               target_textContent = textContent item\<rparr>
              (li_click item st))
      else (Resolved (), st))"

section \<open>The second copy of the controller (the file without a name)\<close>

text \<open>
  The second copy has the same \<^verbatim>\<open>renderNoteList\<close>, \<^verbatim>\<open>openNote\<close> and
  \<^verbatim>\<open>renderPreview\<close>. Its new-note handler (lines 87 to 98) has the body of
  \<^verbatim>\<open>createNewNote\<close>; its list click handler (lines 101 to 115) clears the selection
  and the two fields when the open note is deleted.
\<close>

definition newNoteBtn_click_copy :: "clock \<Rightarrow> app_state \<Rightarrow> unit promise \<times> app_state" where
  "newNoteBtn_click_copy clk st =
     (case saveNote room_for_all (newNote clk) (localStorage st) of
        (Rejected err, ls) \<Rightarrow> (Rejected err, st\<lparr>localStorage := ls\<rparr>)
      | (Resolved u, ls) \<Rightarrow>
          (Resolved (),
           openNote (note_id (newNote clk))
             (st\<lparr>notes := newNote clk # notes st, localStorage := ls\<rparr>)))"

definition noteList_click_copy :: "click_event \<Rightarrow> app_state \<Rightarrow> unit promise \<times> app_state" where
  "noteList_click_copy e st =
     (if shiftKey e \<and> target_tagName e = ''LI'' then
        (case map_option note_id (find (\<lambda>n. title n = target_textContent e) (notes st)) of
           None \<Rightarrow> (Resolved (), st)
         | Some noteId \<Rightarrow>
             if noteId = [] then (Resolved (), st)
             else
               (case deleteNote noteId (localStorage st) of
                  (Rejected err, ls) \<Rightarrow> (Rejected err, st\<lparr>localStorage := ls\<rparr>)
                | (Resolved u, ls) \<Rightarrow>
                    (let st1 = st\<lparr>notes := filter (\<lambda>n. note_id n \<noteq> noteId) (notes st),
                                   localStorage := ls\<rparr>;
                         st2 = (if currentNoteId st1 = Some noteId
                                then st1\<lparr>currentNoteId := None,
                                         editor_value := [],
                                         noteTitle_value := []\<rparr>
                                else st1)
                     in (Resolved (), renderNoteList [] st2))))
      else (Resolved (), st))"

definition click_entry_copy :: "bool \<Rightarrow> nat \<Rightarrow> app_state \<Rightarrow> unit promise \<times> app_state" where
  "click_entry_copy shift k st =
     (if k < length (noteList_children st) then
        (let item = noteList_children st ! k
         in noteList_click_copy
              \<lparr>shiftKey = shift, target_tagName = ''LI'',
               target_textContent = textContent item\<rparr>
              (li_click item st))
      else (Resolved (), st))"

section \<open>Reference definitions and sample data\<close>

text \<open>
  The filter as the specification words it: a note is displayed when its title or its
  content contains the filter string, case-insensitively. This is stated without
  \<open>toLowerCase\<close>, from the letters themselves: the capital letters among the
  characters U+0000 to U+00FF and, at the same position, their small letters.
\<close>

definition capital_letters :: string where
  "capital_letters =
     ''ABCDEFGHIJKLMNOPQRSTUVWXYZ'' @ map char_of ([192..<215] @ [216..<223] :: nat list)"

definition small_letters :: string where
  "small_letters =
     ''abcdefghijklmnopqrstuvwxyz'' @ map char_of ([224..<247] @ [248..<255] :: nat list)"

definition letter_pairs :: "(char \<times> char) list" where
  "letter_pairs = zip capital_letters small_letters"

text \<open>Two characters are the same up to case when they are equal or one is the
  capital of the other.\<close>

definition same_letter :: "char \<Rightarrow> char \<Rightarrow> bool" where
  "same_letter c d = (c = d \<or> (c, d) \<in> set letter_pairs \<or> (d, c) \<in> set letter_pairs)"

text \<open>A text contains a filter string case-insensitively when one of its contiguous
  parts (\<open>sublists\<close>) is the filter string up to the case of each character.\<close>

definition spec_contains_ci :: "string \<Rightarrow> string \<Rightarrow> bool" where
  "spec_contains_ci txt f = (\<exists>w \<in> set (sublists txt). list_all2 same_letter w f)"


text \<open>The number a string of decimal digits stands for (the inverse of \<open>digits\<close>).\<close>

definition digits_value :: "string \<Rightarrow> nat" where
  "digits_value s = foldl (\<lambda>a c. 10 * a + ((of_char c :: nat) - 48)) 0 s"

text \<open>
  The state when the script starts (lines 26 and 27: no open note, no notes), over a
  given state of the store.
\<close>

definition init_state :: "local_storage \<Rightarrow> app_state" where
  "init_state ls =
     \<lparr>currentNoteId = None, notes = [], noteTitle_value = [], editor_value = [],
      preview_innerHTML = [], noteList_children = [], localStorage = ls\<rparr>"

text \<open>Two readings of the clock, one millisecond apart.\<close>

definition clock0 :: clock where
  "clock0 = \<lparr>date_now = 1700000000000, date_iso = ''2023-11-14T22:13:20.000Z''\<rparr>"

definition clock1 :: clock where
  "clock1 = \<lparr>date_now = 1700000000001, date_iso = ''2023-11-14T22:13:20.001Z''\<rparr>"

text \<open>
  The state after two notes were created on an empty store, at \<open>clock0\<close> and at
  \<open>clock1\<close>: both notes are titled Untitled, the newer one is first and open.
\<close>

definition two_notes_state :: app_state where
  "two_notes_state = snd (createNewNote_seq [clock0, clock1] (init_state None))"


text \<open>Two records for the worked examples of the store.\<close>

definition stored_a :: Note where
  "stored_a = \<lparr>note_id = ''3'', title = ''A'', content = ''a'', updatedAt = ''t0''\<rparr>"

definition stored_b :: Note where
  "stored_b = \<lparr>note_id = ''7'', title = ''Old'', content = ''old'', updatedAt = ''t1''\<rparr>"

definition edited_b :: Note where
  "edited_b = \<lparr>note_id = ''7'', title = ''New'', content = ''text'', updatedAt = ''t2''\<rparr>"

text \<open>
  A quota for the worked examples: the store takes an array when its notes hold at most
  \<open>q\<close> characters in all (the serialized array is at least that long). And a note of
  six million characters.
\<close>

definition note_chars :: "Note \<Rightarrow> nat" where
  "note_chars n = length (note_id n) + length (title n) + length (content n) + length (updatedAt n)"

definition room_for :: "nat \<Rightarrow> quota" where
  "room_for q ns = (sum_list (map note_chars ns) \<le> q)"

definition long_note :: Note where
  "long_note = \<lparr>note_id = ''8'', title = ''Long'', content = replicate 6000000 CHR ''x'',
      updatedAt = ''t3''\<rparr>"

section \<open>Lower-casing beyond U+00FF\<close>







section \<open>Facts about the fallback store\<close>

lemma findIndex_none: "(\<forall>x \<in> set xs. \<not> P x) \<Longrightarrow> findIndex P xs = - 1"
  by (induction xs) auto

lemma findIndex_ge_minus1: "- 1 \<le> findIndex P xs"
  by (induction xs) (auto simp: Let_def)

lemma findIndex_split:
  "\<exists>x \<in> set xs. P x \<Longrightarrow>
   \<exists>pre old post. xs = pre @ old # post \<and> P old \<and> (\<forall>m \<in> set pre. \<not> P m)
     \<and> findIndex P xs = int (length pre)"
proof (induction xs)
  case Nil
  then show ?case by simp
next
  case (Cons x xs)
  show ?case
  proof (cases "P x")
    case True
    then have "x # xs = [] @ x # xs \<and> P x \<and> (\<forall>m \<in> set []. \<not> P m)
        \<and> findIndex P (x # xs) = int (length ([] :: 'a list))"
      by simp
    then show ?thesis by blast
  next
    case False
    with Cons.prems have "\<exists>y \<in> set xs. P y" by auto
    from Cons.IH [OF this] obtain pre old post where
      h: "xs = pre @ old # post" "P old" "\<forall>m \<in> set pre. \<not> P m"
         "findIndex P xs = int (length pre)"
      by blast
    from h False have "x # xs = (x # pre) @ old # post \<and> P old
        \<and> (\<forall>m \<in> set (x # pre). \<not> P m)
        \<and> findIndex P (x # xs) = int (length (x # pre))"
      by (simp add: Let_def)
    then show ?thesis by blast
  qed
qed

lemma saveNote_existing:
  assumes "note_id n \<in> note_id ` set (parse_simpleNotes ls)"
  shows "\<exists>pre old post. parse_simpleNotes ls = pre @ old # post
           \<and> note_id old = note_id n
           \<and> (\<forall>m \<in> set pre. note_id m \<noteq> note_id n)
           \<and> snd (saveNote room_for_all n ls) = Some (pre @ n # post)"
proof -
  from assms have "\<exists>x \<in> set (parse_simpleNotes ls). note_id x = note_id n"
    by auto
  from findIndex_split [where P = "\<lambda>m. note_id m = note_id n", OF this]
  obtain pre old post where
    h: "parse_simpleNotes ls = pre @ old # post" "note_id old = note_id n"
       "\<forall>m \<in> set pre. note_id m \<noteq> note_id n"
       "findIndex (\<lambda>m. note_id m = note_id n) (parse_simpleNotes ls) = int (length pre)"
    by blast
  have "snd (saveNote room_for_all n ls) = Some (pre @ n # post)"
    using h(1,4) by (simp add: saveNote_def room_for_all_def Let_def)
  with h show ?thesis by blast
qed

lemma saveNote_fresh:
  assumes "note_id n \<notin> note_id ` set (parse_simpleNotes ls)"
  shows "snd (saveNote room_for_all n ls) = Some (parse_simpleNotes ls @ [n])"
proof -
  from assms have "\<forall>x \<in> set (parse_simpleNotes ls). \<not> note_id x = note_id n"
    by (metis imageI)
  then have "findIndex (\<lambda>m. note_id m = note_id n) (parse_simpleNotes ls) = - 1"
    by (rule findIndex_none)
  then show ?thesis by (simp add: saveNote_def room_for_all_def Let_def)
qed

lemma saveNote_resolves: "fst (saveNote room_for_all n ls) = Resolved ()"
  by (simp add: saveNote_def room_for_all_def Let_def)



lemma saveNote_member: "n \<in> set (parse_simpleNotes (snd (saveNote room_for_all n ls)))"
proof (cases "note_id n \<in> note_id ` set (parse_simpleNotes ls)")
  case True
  from saveNote_existing [OF this] show ?thesis
    by (auto simp: parse_simpleNotes_def)
next
  case False
  from saveNote_fresh [OF this] show ?thesis
    by (simp add: parse_simpleNotes_def)
qed

text \<open>A save that resolves has written what a save into a store with room for every
  write writes; a save that does not resolve has left the store as it was.\<close>

lemma saveNote_resolved:
  "fst (saveNote fits n ls) = Resolved () \<Longrightarrow>
   snd (saveNote fits n ls) = snd (saveNote room_for_all n ls)"
  by (simp add: saveNote_def room_for_all_def Let_def split: if_splits)

lemma saveNote_refused:
  "fst (saveNote fits n ls) \<noteq> Resolved () \<Longrightarrow>
   saveNote fits n ls = (Rejected ''QuotaExceededError'', ls)"
  by (simp add: saveNote_def Let_def split: if_splits)

section \<open>Facts about the string operations\<close>












text \<open>The definition of the specification on its own, on small examples.\<close>

lemma spec_contains_ci_examples:
  "spec_contains_ci ''List'' ''IS'' \<and> \<not> spec_contains_ci ''List'' ''x''"
  by (simp add: spec_contains_ci_def same_letter_def letter_pairs_def capital_letters_def
      small_letters_def char_of_def bit_0)

lemma of_char_digit_char: "d < 10 \<Longrightarrow> (of_char (digit_char d) :: nat) = 48 + d"
  by (simp add: digit_char_def)

lemma digits_value_snoc:
  "digits_value (s @ [c]) = 10 * digits_value s + ((of_char c :: nat) - 48)"
  by (simp add: digits_value_def)

lemma digits_value_digits: "digits_value (digits n) = n"
proof (induction n rule: digits.induct)
  case (1 n)
  show ?case
  proof (cases "n < 10")
    case True
    then show ?thesis
      by (simp add: digits.simps [of n] digits_value_def of_char_digit_char)
  next
    case False
    then have "digits_value (digits (n div 10)) = n div 10"
      using "1.IH" by simp
    with False show ?thesis
      by (simp add: digits.simps [of n] digits_value_snoc of_char_digit_char)
  qed
qed

lemma digits_inj: "digits m = digits n \<Longrightarrow> m = n"
  by (metis digits_value_digits)

lemma digit_char_not_minus: "d < 10 \<Longrightarrow> digit_char d \<noteq> CHR ''-''"
proof
  assume d: "d < 10" and "digit_char d = CHR ''-''"
  then have "(of_char (digit_char d) :: nat) = of_char CHR ''-''" by simp
  with d show False by (simp add: of_char_digit_char)
qed

lemma digits_hd: "\<exists>d cs. d < 10 \<and> digits n = digit_char d # cs"
proof (induction n rule: digits.induct)
  case (1 n)
  show ?case
  proof (cases "n < 10")
    case True
    then have "n < 10 \<and> digits n = digit_char n # []"
      by (simp add: digits.simps [of n])
    then show ?thesis by blast
  next
    case False
    with "1.IH" obtain d cs where "d < 10" "digits (n div 10) = digit_char d # cs"
      by blast
    with False have "d < 10 \<and> digits n = digit_char d # (cs @ [digit_char (n mod 10)])"
      by (simp add: digits.simps [of n])
    then show ?thesis by blast
  qed
qed

text \<open>Two integers with the same decimal string are the same integer.\<close>

lemma toString_inj: "toString i = toString j \<Longrightarrow> i = j"
proof -
  assume eq: "toString i = toString j"
  have neg: "digits m \<noteq> CHR ''-'' # digits k" for m k
  proof
    assume a: "digits m = CHR ''-'' # digits k"
    obtain d cs where "d < 10" "digits m = digit_char d # cs"
      using digits_hd by blast
    with a show False using digit_char_not_minus by auto
  qed
  show "i = j"
  proof (cases "i < 0"; cases "j < 0")
    assume "i < 0" "j < 0"
    with eq have "nat (- i) = nat (- j)"
      by (auto simp: toString_def dest: digits_inj)
    with \<open>i < 0\<close> \<open>j < 0\<close> show ?thesis by simp
  next
    assume "i < 0" "\<not> j < 0"
    with eq neg [of "nat j" "nat (- i)"] show ?thesis
      by (simp add: toString_def)
  next
    assume "\<not> i < 0" "j < 0"
    with eq neg [of "nat i" "nat (- j)"] show ?thesis
      by (simp add: toString_def)
  next
    assume "\<not> i < 0" "\<not> j < 0"
    with eq have "nat i = nat j"
      by (auto simp: toString_def dest: digits_inj)
    with \<open>\<not> i < 0\<close> \<open>\<not> j < 0\<close> show ?thesis by simp
  qed
qed

lemma toString_clock0: "toString (date_now clock0) = ''1700000000000''"
  by (simp add: clock0_def toString_def digits.simps digit_char_def char_of_def bit_0)

lemma toString_clock1: "toString (date_now clock1) = ''1700000000001''"
  by (simp add: clock1_def toString_def digits.simps digit_char_def char_of_def bit_0)

lemma markdown_empty: "markdown [] = []"
  by (simp add: markdown_def re_h1_def re_h2_def re_bold_def re_italic_def re_link_def
      replace_g.simps)

section \<open>Facts about the controller\<close>

lemma notes_renderNoteList: "notes (renderNoteList flt st) = notes st"
  by (simp add: renderNoteList_def Let_def)

lemma currentNoteId_renderNoteList: "currentNoteId (renderNoteList flt st) = currentNoteId st"
  by (simp add: renderNoteList_def Let_def)

lemma notes_renderPreview: "notes (renderPreview st) = notes st"
  by (simp add: renderPreview_def)

lemma notes_openNote: "notes (openNote i st) = notes st"
  by (simp add: openNote_def notes_renderNoteList notes_renderPreview split: option.split)

lemma openNote_found:
  "find (\<lambda>n. note_id n = i) (notes st) = Some n \<Longrightarrow> currentNoteId (openNote i st) = Some i"
  by (simp add: openNote_def renderNoteList_def renderPreview_def Let_def)

text \<open>Over a store with room for every write \<^verbatim>\<open>saveNote\<close> resolves, so
  \<^verbatim>\<open>createNewNote\<close> always runs to its end.\<close>

lemma createNewNote_eq:
  "createNewNote clk st =
     (Resolved (),
      openNote (note_id (newNote clk))
        (st\<lparr>notes := newNote clk # notes st,
            localStorage := snd (saveNote room_for_all (newNote clk) (localStorage st))\<rparr>))"
  by (simp add: createNewNote_def saveNote_def room_for_all_def Let_def)

text \<open>The new-note handler of the second copy is \<^verbatim>\<open>createNewNote\<close>.\<close>

lemma newNoteBtn_click_copy_eq: "newNoteBtn_click_copy clk st = createNewNote clk st"
  by (simp add: newNoteBtn_click_copy_def createNewNote_def)

lemma createNewNote_seq_resolves: "fst (createNewNote_seq clks st) = Resolved ()"
  by (induction clks arbitrary: st) (simp_all add: createNewNote_eq)

lemma createNewNote_seq_notes:
  "notes (snd (createNewNote_seq clks st)) = rev (map newNote clks) @ notes st"
  by (induction clks arbitrary: st) (simp_all add: createNewNote_eq notes_openNote)

lemma newNote_clock0:
  "newNote clock0 = \<lparr>note_id = ''1700000000000'', title = ''Untitled'', content = [],
      updatedAt = ''2023-11-14T22:13:20.000Z''\<rparr>"
  by (simp add: newNote_def toString_clock0) (simp add: clock0_def)

lemma newNote_clock1:
  "newNote clock1 = \<lparr>note_id = ''1700000000001'', title = ''Untitled'', content = [],
      updatedAt = ''2023-11-14T22:13:20.001Z''\<rparr>"
  by (simp add: newNote_def toString_clock1) (simp add: clock1_def)

lemma two_notes_state_eq:
  "two_notes_state =
     \<lparr>currentNoteId = Some ''1700000000001'',
      notes = [newNote clock1, newNote clock0],
      noteTitle_value = ''Untitled'', editor_value = [], preview_innerHTML = [],
      noteList_children =
        [\<lparr>textContent = ''Untitled'', className = ''active'', li_note = newNote clock1\<rparr>,
         \<lparr>textContent = ''Untitled'', className = [], li_note = newNote clock0\<rparr>],
      localStorage = Some [newNote clock0, newNote clock1]\<rparr>"
  by (simp add: two_notes_state_def init_state_def createNewNote_def saveNote_def
      room_for_all_def parse_simpleNotes_def openNote_def renderNoteList_def renderPreview_def make_li_def
      markdown_empty Let_def newNote_clock0 newNote_clock1)

text \<open>
  The list click handler of src/js/app.js, when it deletes the open note: the first
  remaining note becomes the open note, and when none remains a fresh note titled
  Untitled is created and opened.
\<close>

lemma noteList_click_reopens:
  assumes "shiftKey e" and "target_tagName e = ''LI''"
    and "find (\<lambda>m. title m = target_textContent e) (notes st) = Some n"
    and "note_id n \<noteq> []" and "currentNoteId st = Some (note_id n)"
  shows "fst (noteList_click clk e st) = Resolved ()
     \<and> (case filter (\<lambda>m. note_id m \<noteq> note_id n) (notes st) of
           n0 # rest \<Rightarrow>
             notes (snd (noteList_click clk e st)) = n0 # rest
             \<and> currentNoteId (snd (noteList_click clk e st)) = Some (note_id n0)
         | [] \<Rightarrow>
             notes (snd (noteList_click clk e st)) = [newNote clk]
             \<and> currentNoteId (snd (noteList_click clk e st)) = Some (note_id (newNote clk))
             \<and> title (newNote clk) = ''Untitled'')"
proof (cases "filter (\<lambda>m. note_id m \<noteq> note_id n) (notes st)")
  case Nil
  have "title (newNote clk) = ''Untitled''"
    by (simp add: newNote_def)
  moreover have "currentNoteId (openNote (note_id (newNote clk))
        (st\<lparr>notes := [newNote clk], localStorage := ls\<rparr>)) = Some (note_id (newNote clk))" for ls
    by (rule openNote_found [where n = "newNote clk"]) simp
  ultimately show ?thesis
    using assms Nil
    by (simp add: noteList_click_def deleteNote_def createNewNote_eq Let_def
        notes_renderNoteList notes_openNote currentNoteId_renderNoteList)
next
  case (Cons n0 rest)
  have "currentNoteId (openNote (note_id n0)
        (st\<lparr>notes := n0 # rest, localStorage := ls\<rparr>)) = Some (note_id n0)" for ls
    by (rule openNote_found [where n = n0]) simp
  then show ?thesis
    using assms Cons
    by (simp add: noteList_click_def deleteNote_def Let_def
        notes_renderNoteList notes_openNote currentNoteId_renderNoteList)
qed

section \<open>The persistence adapter (claims C5, C6, C7)\<close>

text \<open>
  C5, as the code has it. Round trip on the fallback store: for every note \<open>n\<close>, every
  state of the store and every quota, when \<^verbatim>\<open>saveNote(n)\<close> resolves (its write is taken),
  \<^verbatim>\<open>getNotes()\<close> afterwards resolves with an array that holds a note with the id, the
  title and the content of \<open>n\<close>.
\<close>

theorem saveNote_getNotes_roundtrip:
  assumes "fst (saveNote fits n ls) = Resolved ()"
  shows "\<exists>ns. getNotes (snd (saveNote fits n ls)) = Resolved ns
         \<and> (\<exists>m \<in> set ns. note_id m = note_id n \<and> title m = title n \<and> content m = content n)"
proof -
  have "n \<in> set (parse_simpleNotes (snd (saveNote room_for_all n ls)))"
    by (rule saveNote_member)
  with assms have "n \<in> set (parse_simpleNotes (snd (saveNote fits n ls)))"
    by (simp add: saveNote_resolved)
  then have "\<exists>m \<in> set (parse_simpleNotes (snd (saveNote fits n ls))).
      note_id m = note_id n \<and> title m = title n \<and> content m = content n"
    by blast
  then show ?thesis
    by (simp add: getNotes_def)
qed

text \<open>C5 on sample data: saving the edited record over a store of two records with
  room for a hundred characters, then listing.\<close>

theorem saveNote_getNotes_roundtrip_witness:
  "fst (saveNote (room_for 100) edited_b (Some [stored_a, stored_b])) = Resolved ()
   \<and> getNotes (snd (saveNote (room_for 100) edited_b (Some [stored_a, stored_b])))
       = Resolved [stored_a, edited_b]
   \<and> (\<exists>ns. getNotes (snd (saveNote (room_for 100) edited_b (Some [stored_a, stored_b]))) = Resolved ns
         \<and> (\<exists>m \<in> set ns. note_id m = ''7'' \<and> title m = ''New'' \<and> content m = ''text''))"
proof -
  have h: "fst (saveNote (room_for 100) edited_b (Some [stored_a, stored_b])) = Resolved ()"
    by (simp add: saveNote_def room_for_def note_chars_def parse_simpleNotes_def Let_def
        stored_a_def stored_b_def edited_b_def)
  have e: "getNotes (snd (saveNote (room_for 100) edited_b (Some [stored_a, stored_b])))
       = Resolved [stored_a, edited_b]"
    by (simp add: saveNote_def getNotes_def room_for_def note_chars_def parse_simpleNotes_def
        Let_def stored_a_def stored_b_def edited_b_def)
  from saveNote_getNotes_roundtrip [OF h] h e show ?thesis
    by (simp add: edited_b_def)
qed

text \<open>
  C5 as it is stated (for every note and every state of the store) does not hold: with
  room for 5242880 characters, saving the note of six million characters is rejected,
  the store keeps its one record, and the listing holds no note with the id 8.
\<close>

theorem saveNote_over_quota_not_listed:
  "fst (saveNote (room_for 5242880) long_note (Some [stored_a])) = Rejected ''QuotaExceededError''
   \<and> getNotes (snd (saveNote (room_for 5242880) long_note (Some [stored_a]))) = Resolved [stored_a]
   \<and> note_id long_note \<notin> note_id ` set [stored_a]"
  by (simp add: saveNote_def getNotes_def room_for_def note_chars_def parse_simpleNotes_def
      Let_def stored_a_def long_note_def)

text \<open>
  C6, as the code has it. Upsert on the fallback store, when \<^verbatim>\<open>saveNote(n)\<close> resolves
  (its write is taken): when a record with the id of \<open>n\<close> exists, the first such
  record is replaced by \<open>n\<close> as a whole (all four fields are those of \<open>n\<close>) and every
  other record stays where it is; otherwise \<open>n\<close> is appended as a new record.
\<close>

theorem saveNote_upsert:
  assumes "fst (saveNote fits n ls) = Resolved ()"
  shows "(note_id n \<in> note_id ` set (parse_simpleNotes ls) \<longrightarrow>
      (\<exists>pre old post. parse_simpleNotes ls = pre @ old # post
         \<and> note_id old = note_id n
         \<and> (\<forall>m \<in> set pre. note_id m \<noteq> note_id n)
         \<and> parse_simpleNotes (snd (saveNote fits n ls)) = pre @ n # post))
   \<and> (note_id n \<notin> note_id ` set (parse_simpleNotes ls) \<longrightarrow>
      parse_simpleNotes (snd (saveNote fits n ls)) = parse_simpleNotes ls @ [n])"
proof (intro conjI impI)
  assume "note_id n \<in> note_id ` set (parse_simpleNotes ls)"
  from saveNote_existing [OF this] obtain pre old post where
    h: "parse_simpleNotes ls = pre @ old # post" "note_id old = note_id n"
       "\<forall>m \<in> set pre. note_id m \<noteq> note_id n"
       "snd (saveNote room_for_all n ls) = Some (pre @ n # post)"
    by blast
  from h(4) assms have "parse_simpleNotes (snd (saveNote fits n ls)) = pre @ n # post"
    by (simp add: parse_simpleNotes_def saveNote_resolved)
  with h(1-3) show "\<exists>pre old post. parse_simpleNotes ls = pre @ old # post
         \<and> note_id old = note_id n
         \<and> (\<forall>m \<in> set pre. note_id m \<noteq> note_id n)
         \<and> parse_simpleNotes (snd (saveNote fits n ls)) = pre @ n # post"
    by blast
next
  assume "note_id n \<notin> note_id ` set (parse_simpleNotes ls)"
  from saveNote_fresh [OF this] assms
  show "parse_simpleNotes (snd (saveNote fits n ls)) = parse_simpleNotes ls @ [n]"
    by (simp add: parse_simpleNotes_def saveNote_resolved)
qed

text \<open>C6 on sample data, with room for a hundred characters: an id that is stored (the
  record is replaced in place) and an id that is not (the record is appended).\<close>

theorem saveNote_upsert_witness:
  "fst (saveNote (room_for 100) edited_b (Some [stored_b, stored_a])) = Resolved ()
   \<and> note_id edited_b \<in> note_id ` set (parse_simpleNotes (Some [stored_b, stored_a]))
   \<and> parse_simpleNotes (snd (saveNote (room_for 100) edited_b (Some [stored_b, stored_a])))
       = [edited_b, stored_a]
   \<and> fst (saveNote (room_for 100) edited_b (Some [stored_a])) = Resolved ()
   \<and> note_id edited_b \<notin> note_id ` set (parse_simpleNotes (Some [stored_a]))
   \<and> parse_simpleNotes (snd (saveNote (room_for 100) edited_b (Some [stored_a])))
       = [stored_a, edited_b]"
proof -
  have r1: "fst (saveNote (room_for 100) edited_b (Some [stored_b, stored_a])) = Resolved ()"
    by (simp add: saveNote_def room_for_def note_chars_def parse_simpleNotes_def Let_def
        stored_a_def stored_b_def edited_b_def)
  have r2: "fst (saveNote (room_for 100) edited_b (Some [stored_a])) = Resolved ()"
    by (simp add: saveNote_def room_for_def note_chars_def parse_simpleNotes_def Let_def
        stored_a_def edited_b_def)
  have h1: "note_id edited_b \<in> note_id ` set (parse_simpleNotes (Some [stored_b, stored_a]))"
    by (simp add: parse_simpleNotes_def stored_a_def stored_b_def edited_b_def)
  have h2: "note_id edited_b \<notin> note_id ` set (parse_simpleNotes (Some [stored_a]))"
    by (simp add: parse_simpleNotes_def stored_a_def edited_b_def)
  from saveNote_upsert [OF r1] h1
  obtain pre old post where
    p: "parse_simpleNotes (Some [stored_b, stored_a]) = pre @ old # post"
       "\<forall>m \<in> set pre. note_id m \<noteq> note_id edited_b"
       "parse_simpleNotes (snd (saveNote (room_for 100) edited_b (Some [stored_b, stored_a])))
          = pre @ edited_b # post"
    by blast
  have "pre = []"
  proof (cases pre)
    case Nil
    then show ?thesis .
  next
    case (Cons x xs)
    with p(1,2) show ?thesis
      by (auto simp: parse_simpleNotes_def stored_b_def edited_b_def)
  qed
  with p(1,3) have a: "parse_simpleNotes (snd (saveNote (room_for 100) edited_b
      (Some [stored_b, stored_a]))) = [edited_b, stored_a]"
    by (simp add: parse_simpleNotes_def)
  from saveNote_upsert [OF r2] h2
  have b: "parse_simpleNotes (snd (saveNote (room_for 100) edited_b (Some [stored_a])))
      = [stored_a, edited_b]"
    by (simp add: parse_simpleNotes_def)
  from r1 h1 a r2 h2 b show ?thesis by simp
qed

text \<open>
  C6 as it is stated (for every note) does not hold: with room for 5242880 characters,
  the note of six million characters, whose id is not stored, is not inserted; the
  save is rejected and the store is as it was.
\<close>

theorem saveNote_over_quota_not_inserted:
  "note_id long_note \<notin> note_id ` set (parse_simpleNotes (Some [stored_a]))
   \<and> fst (saveNote (room_for 5242880) long_note (Some [stored_a])) = Rejected ''QuotaExceededError''
   \<and> parse_simpleNotes (snd (saveNote (room_for 5242880) long_note (Some [stored_a]))) = [stored_a]
   \<and> parse_simpleNotes (snd (saveNote (room_for 5242880) long_note (Some [stored_a])))
       \<noteq> parse_simpleNotes (Some [stored_a]) @ [long_note]"
  by (simp add: saveNote_def room_for_def note_chars_def parse_simpleNotes_def
      Let_def stored_a_def long_note_def)



section \<open>The markdown renderer (claim C4)\<close>

text \<open>
  C4. The markdown scenario: the heading substitution turns \<^verbatim>\<open># Hi **there**\<close>
  into \<^verbatim>\<open><h1>Hi **there**</h1>\<close>, and the five substitutions together render it
  to \<^verbatim>\<open><h1>Hi <strong>there</strong></h1>\<close>, which \<^verbatim>\<open>renderPreview\<close> writes to the
  preview.
\<close>

theorem markdown_scenario:
  "replace_g re_h1 [Txt ''<h1>'', Grp 1, Txt ''</h1>''] None ''# Hi **there**''
     = ''<h1>Hi **there**</h1>''
   \<and> markdown ''# Hi **there**'' = ''<h1>Hi <strong>there</strong></h1>''
   \<and> preview_innerHTML (renderPreview (st\<lparr>editor_value := ''# Hi **there**''\<rparr>))
       = ''<h1>Hi <strong>there</strong></h1>''"
proof -
  have h1: "replace_g re_h1 [Txt ''<h1>'', Grp 1, Txt ''</h1>''] None ''# Hi **there**''
      = ''<h1>Hi **there**</h1>''"
    by (simp add: re_h1_def replace_g.simps isLineTerminator_def)
  have h2: "replace_g re_h2 [Txt ''<h2>'', Grp 1, Txt ''</h2>''] None ''<h1>Hi **there**</h1>''
      = ''<h1>Hi **there**</h1>''"
    by (simp add: re_h2_def replace_g.simps isLineTerminator_def)
  have b: "replace_g re_bold [Txt ''<strong>'', Grp 1, Txt ''</strong>''] None
      ''<h1>Hi **there**</h1>'' = ''<h1>Hi <strong>there</strong></h1>''"
    by (simp add: re_bold_def replace_g.simps isLineTerminator_def)
  have i: "replace_g re_italic [Txt ''<em>'', Grp 1, Txt ''</em>''] None
      ''<h1>Hi <strong>there</strong></h1>'' = ''<h1>Hi <strong>there</strong></h1>''"
    by (simp add: re_italic_def replace_g.simps isLineTerminator_def)
  have l: \<open>replace_g re_link [Txt ''<a href="'', Grp 2, Txt ''">'', Grp 1, Txt ''</a>''] None
      ''<h1>Hi <strong>there</strong></h1>'' = ''<h1>Hi <strong>there</strong></h1>''\<close>
    by (simp add: re_link_def replace_g.simps isLineTerminator_def)
  have m: "markdown ''# Hi **there**'' = ''<h1>Hi <strong>there</strong></h1>''"
    unfolding markdown_def h1 h2 b i l by (rule refl)
  from h1 m show ?thesis
    by (simp add: renderPreview_def)
qed

section \<open>The list and the selection (claims C8, C9, C10)\<close>




text \<open>
  C9. Rendering the list, with any filter, changes nothing of the state but the
  displayed entries: the array of notes is the same (same notes, same order, same
  fields), and so is every other part of the state.
\<close>

theorem renderNoteList_frame:
  "renderNoteList flt st = st\<lparr>noteList_children := noteList_children (renderNoteList flt st)\<rparr>
   \<and> notes (renderNoteList flt st) = notes st
   \<and> searchInput_input v st = st\<lparr>noteList_children := noteList_children (searchInput_input v st)\<rparr>
   \<and> notes (searchInput_input v st) = notes st"
  by (simp add: renderNoteList_def searchInput_input_def Let_def)

text \<open>
  C10. Opening an id that no note of the list has changes nothing: the state after the
  call (selection, title field, editor content, notes, and the rest) is the state before.
\<close>

theorem openNote_missing_id_noop:
  assumes "i \<notin> note_id ` set (notes st)"
  shows "openNote i st = st"
proof -
  from assms have "\<not> (\<exists>n. n \<in> set (notes st) \<and> note_id n = i)"
    by (metis imageI)
  then have "find (\<lambda>n. note_id n = i) (notes st) = None"
    by (simp add: find_None_iff)
  then show ?thesis by (simp add: openNote_def)
qed

text \<open>C10 on sample data: no note of the two-notes state has the id 42.\<close>

theorem openNote_missing_id_noop_witness:
  "''42'' \<notin> note_id ` set (notes two_notes_state)
   \<and> openNote ''42'' two_notes_state = two_notes_state"
proof -
  have h: "''42'' \<notin> note_id ` set (notes two_notes_state)"
    by (simp add: two_notes_state_eq newNote_clock0 newNote_clock1)
  from openNote_missing_id_noop [OF h] h show ?thesis by simp
qed

section \<open>Creating and deleting notes (claims C1, C2, C3)\<close>

text \<open>
  C1, as the code has it. The id of a new note is the decimal string of the
  millisecond reading of the clock, so: for every sequence of N invocations of
  \<^verbatim>\<open>createNewNote\<close> whose clock readings are pairwise distinct, every invocation
  resolves, the N notes created are the first N notes of the list (newest first), and
  their ids are pairwise distinct.
\<close>

theorem createNewNote_seq_distinct_ids:
  assumes "distinct (map date_now clks)"
  shows "fst (createNewNote_seq clks st) = Resolved ()
         \<and> take (length clks) (notes (snd (createNewNote_seq clks st))) = rev (map newNote clks)
         \<and> distinct (map note_id (take (length clks) (notes (snd (createNewNote_seq clks st)))))"
proof -
  have t: "take (length clks) (notes (snd (createNewNote_seq clks st))) = rev (map newNote clks)"
    by (simp add: createNewNote_seq_notes)
  have "map note_id (map newNote clks) = map toString (map date_now clks)"
    by (simp add: newNote_def)
  moreover have "distinct (map toString (map date_now clks))"
    using assms by (simp add: distinct_map inj_on_def toString_inj del: map_map)
  ultimately have "distinct (map note_id (rev (map newNote clks)))"
    by (simp add: rev_map [symmetric] del: map_map)
  with t show ?thesis
    by (simp add: createNewNote_seq_resolves)
qed

text \<open>C1 on sample data: two notes created one millisecond apart.\<close>

theorem createNewNote_seq_distinct_ids_witness:
  "distinct (map date_now [clock0, clock1])
   \<and> map note_id (take 2 (notes (snd (createNewNote_seq [clock0, clock1] (init_state None)))))
       = [''1700000000001'', ''1700000000000'']
   \<and> distinct (map note_id (take 2 (notes (snd (createNewNote_seq [clock0, clock1] (init_state None))))))"
proof -
  have h: "distinct (map date_now [clock0, clock1])"
    by (simp add: clock0_def clock1_def)
  from createNewNote_seq_distinct_ids [OF h, of "init_state None"] h show ?thesis
    by (simp add: createNewNote_seq_notes newNote_clock0 newNote_clock1
        del: createNewNote_seq.simps)
qed

text \<open>
  C1 as it is stated (for every sequence of invocations) does not hold: two notes
  created within the same millisecond carry the same id.
\<close>

theorem createNewNote_same_clock_same_id:
  "\<not> distinct (map note_id (take 2 (notes (snd (createNewNote_seq [clock0, clock0] (init_state None))))))"
  by (simp add: createNewNote_seq_notes del: createNewNote_seq.simps)

text \<open>
  C2, in the second copy of the controller. The two-notes state is reached there by
  two presses of the new-note button (\<open>newNoteBtn_click_copy_eq\<close>); its first entry is
  the open note. A shift-click on that entry deletes the note, and the handler then
  clears the selection and both fields: one note remains and no note is open.
  (In src/js/app.js the handler opens the first remaining note: \<open>noteList_click_reopens\<close>.)
\<close>

theorem click_entry_copy_leaves_no_open_note:
  "click_entry_copy True 0 two_notes_state =
     (Resolved (),
      \<lparr>currentNoteId = None,
       notes = [newNote clock0],
       noteTitle_value = [], editor_value = [], preview_innerHTML = [],
       noteList_children =
         [\<lparr>textContent = ''Untitled'', className = [], li_note = newNote clock0\<rparr>],
       localStorage = Some [newNote clock0]\<rparr>)"
  by (simp add: two_notes_state_eq click_entry_copy_def li_click_def noteList_click_copy_def
      deleteNote_def parse_simpleNotes_def openNote_def renderNoteList_def renderPreview_def
      make_li_def markdown_empty Let_def newNote_clock0 newNote_clock1)

text \<open>
  C3, in both copies of the controller. In the two-notes state both notes are titled
  Untitled. A shift-click on the second entry, which was made from the older note,
  removes the newer note from the list and from the store, and the older note stays:
  the handler looks the note up by the text of the entry and takes the first note with
  that title.
\<close>

theorem click_entry_deletes_other_note:
  "li_note (noteList_children two_notes_state ! 1) = newNote clock0
   \<and> notes two_notes_state = [newNote clock1, newNote clock0]
   \<and> notes (snd (click_entry clk True 1 two_notes_state)) = [newNote clock0]
   \<and> localStorage (snd (click_entry clk True 1 two_notes_state)) = Some [newNote clock0]
   \<and> notes (snd (click_entry_copy True 1 two_notes_state)) = [newNote clock0]
   \<and> localStorage (snd (click_entry_copy True 1 two_notes_state)) = Some [newNote clock0]"
  by (simp add: two_notes_state_eq click_entry_def click_entry_copy_def li_click_def
      noteList_click_def noteList_click_copy_def
      deleteNote_def parse_simpleNotes_def openNote_def renderNoteList_def renderPreview_def
      make_li_def markdown_empty Let_def newNote_clock0 newNote_clock1)

end
